theory Spec2Isabelle
  imports Main "HOL-Library.AList" "HOL-Library.Sublist" "HOL-Library.Word"
begin

section \<open>politeiavoter: wire types\<close>

text \<open>
  The records of the ticketvote API (package tkv1) that politeiavoter.go reads and writes.
  Only the fields the voter touches are kept; Go strings and byte slices are \<open>string\<close>.
\<close>

record CastVote =
  cv_Token :: string
  cv_Ticket :: string
  cv_VoteBit :: string
  cv_Signature :: string

record CastVoteReply =
  cvr_Ticket :: string
  cvr_Receipt :: string
  cvr_ErrorCode :: nat
  cvr_ErrorContext :: string

record CastBallot =
  Votes :: "CastVote list"

record CastBallotReply =
  Receipts :: "CastVoteReply list"

record UserErrorReply =
  ue_ErrorCode :: nat
  ue_ErrorContext :: string

record CastVoteDetails =
  cvd_Token :: string
  cvd_Ticket :: string
  cvd_VoteBit :: string
  cvd_Signature :: string
  cvd_Receipt :: string


section \<open>Errors\<close>

text \<open>
  \<open>ErrRetry\<close> is the struct of the source: where in the code, the HTTP body and code if
  there is one, and the underlying error. The other errors of the program are built with
  \<open>fmt.Errorf\<close> or come from a library; \<open>ErrUser\<close> is the one makeRequest formats from a
  \<open>UserErrorReply\<close> (status code, error code, error context) and \<open>NumError\<close> is
  strconv's (the string that did not parse, and why); \<open>Unrecoverable err\<close> is
  \<open>fmt.Errorf("unrecoverable error: %v", err)\<close>, which does not wrap \<open>err\<close> for errors.As;
  \<open>DecodeErr at err\<close> is what the journal decoders build, \<open>fmt.Errorf("decode time (%v): %v",
  d.InputOffset(), err)\<close> and its siblings, from an error of the JSON decoder;
  \<open>Panic\<close> is a run-time panic, which no caller of these functions recovers.
\<close>

record ErrRetry =
  At :: string
  Body :: string
  Code :: int
  Err :: "string option"

datatype num_error = ErrSyntax | ErrRange

datatype decode_error = EOF | ErrUnexpectedEOF | SyntaxError | UnmarshalTypeError

datatype error =
    IsErrRetry ErrRetry
  | ErrUser int nat string
  | NumError string num_error
  | Errorf string
  | Unrecoverable error
  | DecodeErr string decode_error
  | Panic string

text \<open>\<open>errors.As(err, &e)\<close> with \<open>e\<close> an \<open>ErrRetry\<close>.\<close>

fun asErrRetry :: "error \<Rightarrow> ErrRetry option" where
  "asErrRetry (IsErrRetry e) = Some e"
| "asErrRetry _ = None"

section \<open>makeRequest and sendVote\<close>

text \<open>
  What the outside world answers to one call of makeRequest: the error of encoding the
  request body (schema encoder for GET, json.Marshal otherwise), the error of
  http.NewRequestWithContext, and the result of \<open>c.client.Do\<close>: a transport error or a
  response with its status code and body.
\<close>

record response =
  StatusCode :: int
  ResponseBody :: string

record http_env =
  EncodeErr :: "string option"
  NewRequestErr :: "string option"
  Do :: "string + response"

text \<open>
  The JSON decoding of reply bodies is a parameter: \<open>None\<close> is a json.Unmarshal error.
\<close>

record codec =
  unmarshalUserErrorReply :: "string \<Rightarrow> UserErrorReply option"
  unmarshalCastBallotReply :: "string \<Rightarrow> CastBallotReply option"

definition makeRequest :: "codec \<Rightarrow> http_env \<Rightarrow> string \<Rightarrow> 'b option \<Rightarrow> error + string" where
  "makeRequest cd env method b =
     (case (if b \<noteq> None then EncodeErr env else None) of
        Some e \<Rightarrow> Inl (Errorf e)
      | None \<Rightarrow>
     (case NewRequestErr env of
        Some e \<Rightarrow> Inl (Errorf e)
      | None \<Rightarrow>
     (case Do env of
        Inl e \<Rightarrow> Inl (IsErrRetry \<lparr>At = ''c.client.Do(req)'', Body = [], Code = 0, Err = Some e\<rparr>)
      | Inr r \<Rightarrow>
          if StatusCode r = 200 then Inr (ResponseBody r)
          else if StatusCode r = 400 then
            (case unmarshalUserErrorReply cd (ResponseBody r) of
               Some ue \<Rightarrow>
                 if ue_ErrorCode ue \<noteq> 0
                 then Inl (ErrUser (StatusCode r) (ue_ErrorCode ue) (ue_ErrorContext ue))
                 else Inr (ResponseBody r)
             | None \<Rightarrow> Inr (ResponseBody r))
          else Inl (IsErrRetry \<lparr>At = ''r.StatusCode != http.StatusOK'',
                                Body = ResponseBody r, Code = StatusCode r, Err = None\<rparr>))))"

definition sendVote :: "codec \<Rightarrow> http_env \<Rightarrow> CastBallot \<Rightarrow> error + CastVoteReply" where
  "sendVote cd env ballot =
     (if length (Votes ballot) \<noteq> 1 then Inl (Errorf ''sendVote: only one vote allowed'')
      else
        (case makeRequest cd env ''POST'' (Some ballot) of
           Inl e \<Rightarrow> Inl e
         | Inr responseBody \<Rightarrow>
             (case unmarshalCastBallotReply cd responseBody of
                None \<Rightarrow> Inl (Errorf ''Could not unmarshal CastVoteReply'')
              | Some vr \<Rightarrow>
                  (case Receipts vr of
                     [r] \<Rightarrow> Inr r
                   | _ \<Rightarrow> Inl (Errorf ''sendVote: received multiple answers'')))))"

text \<open>A request that reached \<open>c.client.Do\<close>: nothing failed before it.\<close>

definition requestIssued :: "http_env \<Rightarrow> 'b option \<Rightarrow> bool" where
  "requestIssued env b \<longleftrightarrow> (b = None \<or> EncodeErr env = None) \<and> NewRequestErr env = None"

section \<open>Vote bits: strconv.FormatUint and strconv.ParseUint\<close>

text \<open>
  \<open>_vote\<close> encodes the bit of the chosen option with \<open>strconv.FormatUint(vv.Bit, 16)\<close>;
  \<open>tally\<close> reads each recorded vote bit back with \<open>strconv.ParseUint(v.VoteBit, 10, 64)\<close>.
  Both library functions are written out: FormatUint emits the digits of the value, most
  significant first, from Go's digit alphabet; ParseUint rejects the empty string, a
  character that is not a digit of the base, and a value that does not fit 64 bits.
  Go panics on a base outside 2..36 (here: no digits); the program passes 16 and 10 only.
\<close>

definition digits :: string where
  "digits = ''0123456789abcdefghijklmnopqrstuvwxyz''"

function formatBits :: "nat \<Rightarrow> nat \<Rightarrow> string" where
  "formatBits u base =
     (if base < 2 \<or> 36 < base then []
      else if u < base then [digits ! u]
      else formatBits (u div base) base @ [digits ! (u mod base)])"
  by pat_completeness auto
termination
  by (relation "measure (\<lambda>(u, base). u)") auto










text \<open>The digits of \<open>u\<close> in base 16 read again in base 10, and whether all are decimal.\<close>

function reread :: "nat \<Rightarrow> nat" where
  "reread u = (if u < 16 then u else 10 * reread (u div 16) + u mod 16)"
  by pat_completeness auto
termination
  by (relation "measure id") auto

function allDecimal :: "nat \<Rightarrow> bool" where
  "allDecimal u = (if u < 16 then u < 10 else allDecimal (u div 16) \<and> u mod 16 < 10)"
  by pat_completeness auto
termination
  by (relation "measure id") auto

definition decimalDigit :: "char \<Rightarrow> bool" where
  "decimalDigit c \<longleftrightarrow> c \<in> set ''0123456789''"

definition hexLetter :: "char \<Rightarrow> bool" where
  "hexLetter c \<longleftrightarrow> c \<in> set ''abcdef''"


section \<open>The journal on disk\<close>

text \<open>
  What jsonLog encodes: its \<open>work ...interface{}\<close> arguments are a ballot, an
  \<open>ErrRetry\<close>, a receipt or the list of vote intervals, each after a \<open>JSONTime\<close> marker.
  A file is the sequence of the JSON values written to it; \<open>Torn\<close> stands for bytes that are
  not a complete JSON value (a write cut short).
\<close>

record JSONTime =
  Time :: string

record voteInterval =
  vi_Vote :: CastVote
  vi_At :: int

datatype jvalue =
    JTime JSONTime
  | JBallot CastBallot
  | JErrRetry ErrRetry
  | JReply CastVoteReply
  | JWork "voteInterval list"

datatype chunk = Value jvalue | Torn

type_synonym path = "string list"

record jfile =
  perm :: nat
  content :: "chunk list"

record fsys =
  dirs :: "path \<rightharpoonup> nat"
  files :: "path \<rightharpoonup> jfile"

definition failedJournal :: string where
  "failedJournal = ''failed.json''"

definition successJournal :: string where
  "successJournal = ''success.json''"

definition workJournal :: string where
  "workJournal = ''work.json''"

text \<open>Octal 0700 and 0600.\<close>

definition mode_0700 :: nat where
  "mode_0700 = 7 * 64"

definition mode_0600 :: nat where
  "mode_0600 = 6 * 64"

text \<open>
  \<open>filepath.Join\<close> of a directory and one name (a name without separators), and
  \<open>fmt.Sprintf("%v.%v", filename, c.run.Unix())\<close>: the Unix time is an int64 printed in
  decimal.
\<close>

definition Join :: "path \<Rightarrow> string \<Rightarrow> path" where
  "Join dir name = dir @ [name]"

definition FormatInt :: "int \<Rightarrow> string" where
  "FormatInt i = (if i < 0 then CHR ''-'' # formatBits (nat (- i)) 10 else formatBits (nat i) 10)"

definition journalName :: "string \<Rightarrow> int \<Rightarrow> string" where
  "journalName filename unix = filename @ ''.'' @ FormatInt unix"

text \<open>
  \<open>os.MkdirAll(dir, perm)\<close> creates the directory and the missing parents, top down, and
  stops at a path that is a file; what exists stays as it is. jsonLog ignores its error.
\<close>

definition MkdirAll :: "bool \<Rightarrow> fsys \<Rightarrow> path \<Rightarrow> nat \<Rightarrow> fsys" where
  "MkdirAll fails fs dir p =
     (if fails then fs
      else fs\<lparr>dirs := (\<lambda>d. if prefix d dir \<and> dirs fs d = None \<and>
                               list_all (\<lambda>q. files fs q = None) (prefixes d)
                            then Some p else dirs fs d)\<rparr>)"

text \<open>
  \<open>os.OpenFile(name, flag, perm)\<close> for writing: without \<open>O_CREATE\<close> a missing file is an
  error, with it the file is created empty with mode \<open>perm\<close>; \<open>O_TRUNC\<close> empties it. The
  handle remembers the name, whether writes append, and the write offset otherwise.
\<close>

datatype oflag = O_RDONLY | O_WRONLY | O_RDWR | O_APPEND | O_CREATE | O_EXCL | O_TRUNC

record handle =
  h_name :: path
  h_append :: bool
  h_offset :: nat

definition OpenFile :: "string option \<Rightarrow> fsys \<Rightarrow> path \<Rightarrow> oflag set \<Rightarrow> nat \<Rightarrow> error + fsys \<times> handle" where
  "OpenFile fails fs name flag p =
     (case fails of
        Some e \<Rightarrow> Inl (Errorf e)
      | None \<Rightarrow>
          if name = [] \<or> dirs fs (butlast name) = None \<or> dirs fs name \<noteq> None
          then Inl (Errorf ''open: no such file or directory'')
          else
            (case files fs name of
               None \<Rightarrow>
                 if O_CREATE \<in> flag
                 then Inr (fs\<lparr>files := (files fs)(name \<mapsto> \<lparr>perm = p, content = []\<rparr>)\<rparr>,
                           \<lparr>h_name = name, h_append = O_APPEND \<in> flag, h_offset = 0\<rparr>)
                 else Inl (Errorf ''open: no such file or directory'')
             | Some f \<Rightarrow>
                 if O_EXCL \<in> flag \<and> O_CREATE \<in> flag then Inl (Errorf ''open: file exists'')
                 else Inr (if O_TRUNC \<in> flag
                           then fs\<lparr>files := (files fs)(name \<mapsto> f\<lparr>content := []\<rparr>)\<rparr> else fs,
                           \<lparr>h_name = name, h_append = O_APPEND \<in> flag, h_offset = 0\<rparr>)))"

text \<open>One \<open>Encode\<close> on the handle: at the end of the file if it appends, at its offset if not.\<close>

definition writeValue :: "fsys \<Rightarrow> handle \<Rightarrow> jvalue \<Rightarrow> fsys \<times> handle" where
  "writeValue fs h v =
     (case files fs (h_name h) of
        None \<Rightarrow> (fs, h)
      | Some f \<Rightarrow>
          if h_append h
          then (fs\<lparr>files := (files fs)(h_name h \<mapsto> f\<lparr>content := content f @ [Value v]\<rparr>)\<rparr>, h)
          else (fs\<lparr>files := (files fs)(h_name h \<mapsto>
                      f\<lparr>content := take (h_offset h) (content f) @ [Value v] @
                                     drop (Suc (h_offset h)) (content f)\<rparr>)\<rparr>,
                h\<lparr>h_offset := Suc (h_offset h)\<rparr>))"

text \<open>
  What the outside world does to one call of jsonLog: the time of the marker, whether
  MkdirAll or OpenFile fail, and the error of the k-th Encode, if any.
\<close>

record log_env =
  Now :: string
  MkdirAllFails :: bool
  OpenFileErr :: "string option"
  EncodeErrAt :: "nat \<Rightarrow> string option"

fun encodeAll :: "log_env \<Rightarrow> nat \<Rightarrow> jvalue list \<Rightarrow> fsys \<Rightarrow> handle \<Rightarrow> error option \<times> fsys" where
  "encodeAll env k [] fs h = (None, fs)"
| "encodeAll env k (v # vs) fs h =
     (case EncodeErrAt env k of
        Some e \<Rightarrow> (Some (Errorf e), fs)
      | None \<Rightarrow> (case writeValue fs h v of (fs', h') \<Rightarrow> encodeAll env (Suc k) vs fs' h'))"

text \<open>
  jsonLog on the file system: \<open>voteDir\<close> and \<open>run\<close> are \<open>c.cfg.voteDir\<close> and
  \<open>c.run.Unix()\<close>.
\<close>

definition jsonLog :: "log_env \<Rightarrow> path \<Rightarrow> int \<Rightarrow> fsys \<Rightarrow> string \<Rightarrow> string \<Rightarrow> jvalue list \<Rightarrow> error option \<times> fsys" where
  "jsonLog env voteDir run fs filename token work =
     (let dir = Join voteDir token;
          fs1 = MkdirAll (MkdirAllFails env) fs dir mode_0700;
          f = Join dir (journalName filename run)
      in case OpenFile (OpenFileErr env) fs1 f {O_WRONLY, O_CREATE, O_APPEND} mode_0600 of
           Inl err \<Rightarrow> (Some err, fs1)
         | Inr (fs2, fh) \<Rightarrow> encodeAll env 0 (JTime \<lparr>Time = Now env\<rparr> # work) fs2 fh)"

section \<open>The trickle engine: queues and main loop\<close>

text \<open>
  Modelled from the spec: the \<open>retry\<close> struct and the methods \<open>retryPush\<close> and \<open>retryLen\<close>
  are not in the source files. The spec has a RetryItem of a vote and an attempt count
  that starts at 0, in a FIFO queue with push and len; the main loop builds
  \<open>&retry{vote: vote.Vote}\<close>.
\<close>

record retry =
  r_vote :: CastVote
  r_retries :: nat

text \<open>
  The client context \<open>ctx\<close>: the two queues, the results, the start of the run and the vote
  directory of the config. The state outside it that the main loop acts on is carried
  along: the file system, the messages sent on the channels \<open>mainLoopDone\<close> and
  \<open>mainLoopForceExit\<close>, and the ballots handed to sendVote.
\<close>

datatype signal = mainLoopDone | mainLoopForceExit

record ctx =
  retryQ :: "retry list"
  ballotResults :: "CastVoteReply list"
  voteIntervalQ :: "voteInterval list"
  run_Unix :: int
  cfg_voteDir :: path
  disk :: fsys
  signals :: "signal list"
  submitted :: "CastBallot list"

definition voteIntervalPush :: "ctx \<Rightarrow> voteInterval \<Rightarrow> ctx" where
  "voteIntervalPush c v = c\<lparr>voteIntervalQ := voteIntervalQ c @ [v]\<rparr>"

definition voteIntervalPop :: "ctx \<Rightarrow> voteInterval option \<times> ctx" where
  "voteIntervalPop c =
     (case voteIntervalQ c of
        [] \<Rightarrow> (None, c)
      | e # q \<Rightarrow> (Some e, c\<lparr>voteIntervalQ := q\<rparr>))"

definition voteIntervalLen :: "ctx \<Rightarrow> nat" where
  "voteIntervalLen c = length (voteIntervalQ c)"

definition retryPush :: "ctx \<Rightarrow> retry \<Rightarrow> ctx" where
  "retryPush c r = c\<lparr>retryQ := retryQ c @ [r]\<rparr>"

definition retryLen :: "ctx \<Rightarrow> nat" where
  "retryLen c = length (retryQ c)"

text \<open>\<open>c.jsonLog\<close> as a method of the context.\<close>

definition ctx_jsonLog :: "log_env \<Rightarrow> ctx \<Rightarrow> string \<Rightarrow> string \<Rightarrow> jvalue list \<Rightarrow> error option \<times> ctx" where
  "ctx_jsonLog env c filename token work =
     (case jsonLog env (cfg_voteDir c) (run_Unix c) (disk c) filename token work of
        (err, fs') \<Rightarrow> (err, c\<lparr>disk := fs'\<rparr>))"

text \<open>
  The \<open>select\<close> of the main loop fires one of its three cases; which one, the answer of the
  server and the fate of the journal write at iteration \<open>i\<close> come from outside. The retry
  loop, a goroutine whose code is not in the source files, is outside too: it shows only
  as the case \<open>retryLoopForceExit\<close>.
\<close>

datatype select = wctx_Done | time_After | retryLoopForceExit

record trickle_env =
  Select :: "nat \<Rightarrow> select"
  Http :: "nat \<Rightarrow> http_env"
  Log :: "nat \<Rightarrow> log_env"

text \<open>
  One turn of the \<open>for\<close> loop of \<open>_voteTrickler\<close> after the pop: \<open>Next\<close> is \<open>i++\<close> and the
  next turn, \<open>Return None\<close> is \<open>goto exit\<close> and \<open>Return (Some err)\<close> a \<open>return err\<close>.
  \<open>invalid\<close> is the constant \<open>tkv1.VoteErrorVoteStatusInvalid\<close>.
\<close>

datatype flow = Next | Return "error option"

definition iteration :: "codec \<Rightarrow> nat \<Rightarrow> trickle_env \<Rightarrow> string \<Rightarrow> nat \<Rightarrow> voteInterval \<Rightarrow> ctx \<Rightarrow> flow \<times> ctx" where
  "iteration cd invalid env token i vote c =
     (case (if i = 0 then time_After else Select env i) of
        wctx_Done \<Rightarrow> (Return None, c)
      | retryLoopForceExit \<Rightarrow> (Return None, voteIntervalPush c vote)
      | time_After \<Rightarrow>
          (let b = \<lparr>Votes = [vi_Vote vote]\<rparr>;
               c1 = c\<lparr>submitted := submitted c @ [b]\<rparr>
           in case sendVote cd (Http env i) b of
                Inl err \<Rightarrow>
                  (case asErrRetry err of
                     Some e \<Rightarrow>
                       (case ctx_jsonLog (Log env i) c1 failedJournal token [JBallot b, JErrRetry e] of
                          (Some err', c2) \<Rightarrow> (Return (Some err'), c2)
                        | (None, c2) \<Rightarrow>
                            (Next, retryPush c2 \<lparr>r_vote = vi_Vote vote, r_retries = 0\<rparr>))
                   | None \<Rightarrow> (Return (Some (Unrecoverable err)), c1))
              | Inr vr \<Rightarrow>
                  (let c2 = c1\<lparr>ballotResults := ballotResults c1 @ [vr]\<rparr>
                   in if cvr_ErrorCode vr = invalid
                      then
                        (case ctx_jsonLog (Log env i) c2 failedJournal token [JReply vr] of
                           (Some err, c3) \<Rightarrow> (Return (Some err), c3)
                         | (None, c3) \<Rightarrow>
                             (Return None, c3\<lparr>signals := signals c3 @ [mainLoopForceExit]\<rparr>))
                      else
                        (case ctx_jsonLog (Log env i) c2 successJournal token [JReply vr] of
                           (Some err, c3) \<Rightarrow> (Return (Some err), c3)
                         | (None, c3) \<Rightarrow> (Next, c3)))))"

lemma ctx_jsonLog_voteIntervalQ:
  "ctx_jsonLog env c filename token work = (err, c') \<Longrightarrow> voteIntervalQ c' = voteIntervalQ c"
  by (auto simp: ctx_jsonLog_def split: prod.splits)

lemma iteration_Next_voteIntervalQ:
  "iteration cd invalid env token i vote c = (Next, c') \<Longrightarrow> voteIntervalQ c' = voteIntervalQ c"
  by (auto simp: iteration_def Let_def retryPush_def
      split: select.splits sum.splits option.splits prod.splits if_splits
      dest!: ctx_jsonLog_voteIntervalQ)

text \<open>
  The \<open>for\<close> loop and what follows it: an empty queue breaks the loop, the main loop tells
  the retry loop that it is done and returns nil.
\<close>

function mainLoop :: "codec \<Rightarrow> nat \<Rightarrow> trickle_env \<Rightarrow> string \<Rightarrow> nat \<Rightarrow> ctx \<Rightarrow> error option \<times> ctx" where
  "mainLoop cd invalid env token i c =
     (case voteIntervalPop c of
        (None, c1) \<Rightarrow> (None, c1\<lparr>signals := signals c1 @ [mainLoopDone]\<rparr>)
      | (Some vote, c1) \<Rightarrow>
          (case iteration cd invalid env token i vote c1 of
             (Next, c2) \<Rightarrow> mainLoop cd invalid env token (i + 1) c2
           | (Return r, c2) \<Rightarrow> (r, c2)))"
  by pat_completeness auto
termination
proof (relation "measure (\<lambda>(cd, invalid, env, token, i, c). length (voteIntervalQ c))")
  show "wf (measure (\<lambda>(cd, invalid, env, token, i, c). length (voteIntervalQ c)))"
    by simp
next
  fix cd :: codec and invalid :: nat and env :: trickle_env and token :: string and i :: nat
    and c c1 c2 :: ctx and x1 vote x and x2 :: flow
  assume pop: "(x1, c1) = voteIntervalPop c" "x1 = Some vote"
    and it: "(x2, c2) = iteration cd invalid env token i vote c1" "x2 = Next"
  from pop have "length (voteIntervalQ c1) < length (voteIntervalQ c)"
    by (auto simp: voteIntervalPop_def split: list.splits)
  moreover from it have "voteIntervalQ c2 = voteIntervalQ c1"
    using iteration_Next_voteIntervalQ [of cd invalid env token i vote c1 c2] by simp
  ultimately show "((cd, invalid, env, token, i + 1, c2), (cd, invalid, env, token, i, c))
      \<in> measure (\<lambda>(cd, invalid, env, token, i, c). length (voteIntervalQ c))"
    by simp
qed

definition voteTrickler :: "codec \<Rightarrow> nat \<Rightarrow> trickle_env \<Rightarrow> string \<Rightarrow> ctx \<Rightarrow> error option \<times> ctx" where
  "voteTrickler cd invalid env token c = mainLoop cd invalid env token 0 (c\<lparr>ballotResults := []\<rparr>)"

text \<open>
  \<open>vote\<close> after \<open>_vote\<close>: the receipts with an error context are the failed votes, and the
  votes not cast are those left in the two queues.
\<close>

record summary =
  votesSucceeded :: nat
  votesFailed :: nat
  votesNotCast :: nat

definition vote_summary :: "ctx \<Rightarrow> summary" where
  "vote_summary c =
     (let failedReceipts = filter (\<lambda>v. cvr_ErrorContext v \<noteq> []) (ballotResults c)
      in \<lparr>votesSucceeded = length (ballotResults c) - length failedReceipts,
          votesFailed = length failedReceipts,
          votesNotCast = voteIntervalLen c + retryLen c\<rparr>)"

text \<open>
  \<open>vote\<close> from the call of \<open>_voteTrickler\<close> on, the queue loaded with the work: an error is
  returned, otherwise the summary is printed.
\<close>

definition vote :: "codec \<Rightarrow> nat \<Rightarrow> trickle_env \<Rightarrow> string \<Rightarrow> ctx \<Rightarrow> (error + summary) \<times> ctx" where
  "vote cd invalid env token c =
     (case voteTrickler cd invalid env token c of
        (Some err, c') \<Rightarrow> (Inl err, c')
      | (None, c') \<Rightarrow> (Inr (vote_summary c'), c'))"

section \<open>eligibleVotes\<close>

text \<open>
  The wallet's answer to CommittedTickets is a list of ticket hashes (byte strings) with
  their addresses. The calls eligibleVotes makes for one ticket are parameters:
  \<open>GetTransaction\<close>, the deserialisation of the transaction (its outputs' scripts),
  \<open>stake.AddrFromSStxPkScrCommitment\<close> and \<open>ValidateAddress\<close> (the account number);
  \<open>None\<close> is an error of the call.
\<close>

type_synonym bytes = "8 word list"

record TicketAddress =
  ta_Ticket :: bytes
  ta_Address :: string

record wallet =
  GetTransaction :: "bytes \<Rightarrow> bytes option"
  Deserialize :: "bytes \<Rightarrow> bytes list option"
  AddrFromSStxPkScrCommitment :: "bytes \<Rightarrow> string option"
  ValidateAddress :: "string \<Rightarrow> nat option"

text \<open>
  \<open>chainhash.NewHash\<close> wants 32 bytes; \<open>Hash.String\<close> is the hexadecimal of the bytes in
  reverse order.
\<close>

definition NewHash :: "bytes \<Rightarrow> error + bytes" where
  "NewHash b = (if length b \<noteq> 32 then Inl (Errorf ''invalid hash length'') else Inr b)"

definition hexByte :: "8 word \<Rightarrow> string" where
  "hexByte b = [digits ! (unat b div 16), digits ! (unat b mod 16)]"

definition hashString :: "bytes \<Rightarrow> string" where
  "hashString h = concat (map hexByte (rev h))"

text \<open>The map of the cast votes by ticket: a later vote of a ticket replaces an earlier one.\<close>

definition castVotes :: "CastVoteDetails list \<Rightarrow> (string \<rightharpoonup> CastVoteDetails)" where
  "castVotes votes = foldl (\<lambda>m v. m(cvd_Ticket v \<mapsto> v)) Map.empty votes"

text \<open>
  The loop over the ticket addresses. \<open>continue\<close> is the recursive call with \<open>eligible\<close>
  unchanged; \<open>tx.TxOut[1]\<close> of a transaction with fewer than two outputs panics.
\<close>

fun eligibleLoop :: "wallet \<Rightarrow> (string \<rightharpoonup> CastVoteDetails) \<Rightarrow> TicketAddress list \<Rightarrow> TicketAddress list \<Rightarrow> error + TicketAddress list" where
  "eligibleLoop w cast eligible [] = Inr eligible"
| "eligibleLoop w cast eligible (t # ts) =
     (case NewHash (ta_Ticket t) of
        Inl err \<Rightarrow> Inl err
      | Inr h \<Rightarrow>
     (case GetTransaction w h of
        None \<Rightarrow> eligibleLoop w cast eligible ts
      | Some r \<Rightarrow>
     (case Deserialize w r of
        None \<Rightarrow> eligibleLoop w cast eligible ts
      | Some txOut \<Rightarrow>
          if length txOut < 2 then Inl (Panic ''index out of range'')
          else
     (case AddrFromSStxPkScrCommitment w (txOut ! 1) of
        None \<Rightarrow> eligibleLoop w cast eligible ts
      | Some addr \<Rightarrow>
     (case ValidateAddress w addr of
        None \<Rightarrow> eligibleLoop w cast eligible ts
      | Some accountNumber \<Rightarrow>
          if accountNumber \<ge> 2 ^ 31 - 1 then eligibleLoop w cast eligible ts
          else if cast (hashString h) = None then eligibleLoop w cast (eligible @ [t]) ts
          else eligibleLoop w cast eligible ts)))))"

text \<open>
  "The wallet can sign for the ticket": the four calls answer and the account is not an
  imported xpub account.
\<close>

definition walletAccount :: "wallet \<Rightarrow> bytes \<Rightarrow> nat option" where
  "walletAccount w h =
     (case GetTransaction w h of
        None \<Rightarrow> None
      | Some r \<Rightarrow>
     (case Deserialize w r of
        None \<Rightarrow> None
      | Some txOut \<Rightarrow>
     (case AddrFromSStxPkScrCommitment w (txOut ! 1) of
        None \<Rightarrow> None
      | Some addr \<Rightarrow> ValidateAddress w addr)))"

definition canSign :: "wallet \<Rightarrow> TicketAddress \<Rightarrow> bool" where
  "canSign w t = (case walletAccount w (ta_Ticket t) of None \<Rightarrow> False | Some n \<Rightarrow> n < 2 ^ 31 - 1)"

definition eligibleVotes :: "wallet \<Rightarrow> CastVoteDetails list \<Rightarrow> TicketAddress list \<Rightarrow> error + TicketAddress list" where
  "eligibleVotes w rrVotes ticketAddresses = eligibleLoop w (castVotes rrVotes) [] ticketAddresses"


section \<open>Reading the journals back\<close>
























section \<open>Well-formed journal files\<close>




section \<open>verifyVote\<close>
















section \<open>What the verifier has read\<close>






section \<open>Fixtures\<close>

text \<open>Fixtures: a codec that knows three bodies, and three answers of the server.\<close>

definition receipt0 :: CastVoteReply where
  "receipt0 = \<lparr>cvr_Ticket = ''t1'', cvr_Receipt = ''r1'', cvr_ErrorCode = 0, cvr_ErrorContext = []\<rparr>"

text \<open>A value for the constant \<open>tkv1.VoteErrorVoteStatusInvalid\<close>, and a receipt with it.\<close>

definition statusInvalid :: nat where
  "statusInvalid = 5"

definition receiptEnded :: CastVoteReply where
  "receiptEnded = \<lparr>cvr_Ticket = ''t2'', cvr_Receipt = [], cvr_ErrorCode = statusInvalid,
                    cvr_ErrorContext = ''vote has ended''\<rparr>"

definition codec0 :: codec where
  "codec0 =
     \<lparr>unmarshalUserErrorReply =
        (\<lambda>s. if s = ''usererror'' then Some \<lparr>ue_ErrorCode = 3, ue_ErrorContext = ''bad token''\<rparr>
             else if s = ''{}'' then Some \<lparr>ue_ErrorCode = 0, ue_ErrorContext = []\<rparr>
             else None),
      unmarshalCastBallotReply =
        (\<lambda>s. if s = ''one'' then Some \<lparr>Receipts = [receipt0]\<rparr>
             else if s = ''ended'' then Some \<lparr>Receipts = [receiptEnded]\<rparr>
             else if s = ''two'' then Some \<lparr>Receipts = [receipt0, receipt0]\<rparr>
             else if s = ''{}'' then Some \<lparr>Receipts = []\<rparr>
             else None)\<rparr>"

definition answers :: "int \<Rightarrow> string \<Rightarrow> http_env" where
  "answers code body =
     \<lparr>EncodeErr = None, NewRequestErr = None,
      Do = Inr \<lparr>StatusCode = code, ResponseBody = body\<rparr>\<rparr>"

definition unreachable :: http_env where
  "unreachable = \<lparr>EncodeErr = None, NewRequestErr = None, Do = Inl ''connection refused''\<rparr>"

definition vote0 :: CastVote where
  "vote0 = \<lparr>cv_Token = ''aa'', cv_Ticket = ''t1'', cv_VoteBit = ''1'', cv_Signature = ''s1''\<rparr>"


definition fs0 :: fsys where
  "fs0 = \<lparr>dirs = [[] \<mapsto> 493, [''votes''] \<mapsto> mode_0700], files = Map.empty\<rparr>"

definition log_env0 :: log_env where
  "log_env0 = \<lparr>Now = ''Jan  2 15:04:05.000000000'', MkdirAllFails = False, OpenFileErr = None,
                EncodeErrAt = (\<lambda>k. None)\<rparr>"


text \<open>
  A run of three scheduled votes on an empty vote directory, and three worlds: one where
  the process is cancelled during the wait for the second vote, one where the retry loop
  forces the exit there, and one where the server answers the second vote with
  \<open>VoteStatusInvalid\<close>.
\<close>

definition vi1 :: voteInterval where
  "vi1 = \<lparr>vi_Vote = \<lparr>cv_Token = ''aa'', cv_Ticket = ''t1'', cv_VoteBit = ''1'', cv_Signature = ''s1''\<rparr>,
          vi_At = 0\<rparr>"

definition vi2 :: voteInterval where
  "vi2 = \<lparr>vi_Vote = \<lparr>cv_Token = ''aa'', cv_Ticket = ''t2'', cv_VoteBit = ''1'', cv_Signature = ''s2''\<rparr>,
          vi_At = 60\<rparr>"

definition vi3 :: voteInterval where
  "vi3 = \<lparr>vi_Vote = \<lparr>cv_Token = ''aa'', cv_Ticket = ''t3'', cv_VoteBit = ''1'', cv_Signature = ''s3''\<rparr>,
          vi_At = 90\<rparr>"

definition ctx0 :: ctx where
  "ctx0 = \<lparr>retryQ = [], ballotResults = [], voteIntervalQ = [vi1, vi2, vi3],
           run_Unix = 1600000000, cfg_voteDir = [''votes''], disk = fs0, signals = [],
           submitted = []\<rparr>"

definition env_cancel :: trickle_env where
  "env_cancel = \<lparr>Select = (\<lambda>i. wctx_Done), Http = (\<lambda>i. answers 200 ''one''),
                 Log = (\<lambda>i. log_env0)\<rparr>"

definition env_force :: trickle_env where
  "env_force = \<lparr>Select = (\<lambda>i. retryLoopForceExit), Http = (\<lambda>i. answers 200 ''one''),
                Log = (\<lambda>i. log_env0)\<rparr>"


text \<open>The state after the first vote of the run went through.\<close>

definition ctx1 :: ctx where
  "ctx1 = ctx0\<lparr>voteIntervalQ := [vi2, vi3],
               submitted := [\<lparr>Votes = [vi_Vote vi1]\<rparr>],
               ballotResults := [receipt0],
               disk := snd (jsonLog log_env0 [''votes''] 1600000000 fs0 successJournal ''aa''
                              [JReply receipt0])\<rparr>"

text \<open>
  A wallet that can sign for every ticket (account 0), one committed ticket, and a results
  reply in which that ticket has voted with a signature that does not verify.
\<close>

definition wallet0 :: wallet where
  "wallet0 = \<lparr>GetTransaction = (\<lambda>h. Some h), Deserialize = (\<lambda>r. Some [r, r]),
              AddrFromSStxPkScrCommitment = (\<lambda>s. Some ''DsAddr''),
              ValidateAddress = (\<lambda>a. Some 0)\<rparr>"

definition ticket0 :: TicketAddress where
  "ticket0 = \<lparr>ta_Ticket = replicate 31 0 @ [1], ta_Address = ''DsAddr''\<rparr>"

definition badVote :: CastVoteDetails where
  "badVote = \<lparr>cvd_Token = ''aa'', cvd_Ticket = hashString (ta_Ticket ticket0), cvd_VoteBit = ''1'',
              cvd_Signature = ''not a signature'', cvd_Receipt = ''r''\<rparr>"











section \<open>Properties of makeRequest and sendVote\<close>

lemma codec0_UserErrorReply:
  "unmarshalUserErrorReply codec0 s =
     (if s = ''usererror'' then Some \<lparr>ue_ErrorCode = 3, ue_ErrorContext = ''bad token''\<rparr>
      else if s = ''{}'' then Some \<lparr>ue_ErrorCode = 0, ue_ErrorContext = []\<rparr>
      else None)"
  by (simp add: codec0_def)

lemma codec0_CastBallotReply:
  "unmarshalCastBallotReply codec0 s =
     (if s = ''one'' then Some \<lparr>Receipts = [receipt0]\<rparr>
      else if s = ''ended'' then Some \<lparr>Receipts = [receiptEnded]\<rparr>
      else if s = ''two'' then Some \<lparr>Receipts = [receipt0, receipt0]\<rparr>
      else if s = ''{}'' then Some \<lparr>Receipts = []\<rparr>
      else None)"
  by (simp add: codec0_def)

text \<open>
  C4. makeRequest classifies HTTP outcomes: a transport failure of \<open>client.Do\<close> and a
  response whose status is neither 200 nor 400 are returned as an \<open>ErrRetry\<close> that
  carries the location (and, where there is a response, its status code and body); an
  HTTP 400 whose body is a \<open>UserErrorReply\<close> with a nonzero error code is returned as a
  plain error that is not an \<open>ErrRetry\<close>.
\<close>

theorem makeRequest_classifies:
  assumes "requestIssued env b"
  shows "(\<forall>e. Do env = Inl e \<longrightarrow>
            makeRequest cd env method b =
              Inl (IsErrRetry \<lparr>At = ''c.client.Do(req)'', Body = [], Code = 0, Err = Some e\<rparr>)) \<and>
         (\<forall>r. Do env = Inr r \<and> StatusCode r \<noteq> 200 \<and> StatusCode r \<noteq> 400 \<longrightarrow>
            makeRequest cd env method b =
              Inl (IsErrRetry \<lparr>At = ''r.StatusCode != http.StatusOK'',
                               Body = ResponseBody r, Code = StatusCode r, Err = None\<rparr>)) \<and>
         (\<forall>r ue. Do env = Inr r \<and> StatusCode r = 400 \<and>
            unmarshalUserErrorReply cd (ResponseBody r) = Some ue \<and> ue_ErrorCode ue \<noteq> 0 \<longrightarrow>
            makeRequest cd env method b =
              Inl (ErrUser 400 (ue_ErrorCode ue) (ue_ErrorContext ue)) \<and>
            asErrRetry (ErrUser 400 (ue_ErrorCode ue) (ue_ErrorContext ue)) = None)"
  using assms
  by (auto simp: makeRequest_def requestIssued_def split: option.splits)

theorem makeRequest_classifies_witness:
  "makeRequest codec0 unreachable ''POST'' (Some \<lparr>Votes = [vote0]\<rparr>) =
     Inl (IsErrRetry \<lparr>At = ''c.client.Do(req)'', Body = [], Code = 0,
                      Err = Some ''connection refused''\<rparr>) \<and>
   makeRequest codec0 (answers 502 ''bad gateway'') ''POST'' (Some \<lparr>Votes = [vote0]\<rparr>) =
     Inl (IsErrRetry \<lparr>At = ''r.StatusCode != http.StatusOK'', Body = ''bad gateway'',
                      Code = 502, Err = None\<rparr>) \<and>
   makeRequest codec0 (answers 400 ''usererror'') ''POST'' (Some \<lparr>Votes = [vote0]\<rparr>) =
     Inl (ErrUser 400 3 ''bad token'')"
  using makeRequest_classifies [of unreachable "Some \<lparr>Votes = [vote0]\<rparr>" codec0 "''POST''"]
    makeRequest_classifies [of "answers 502 ''bad gateway''" "Some \<lparr>Votes = [vote0]\<rparr>" codec0 "''POST''"]
    makeRequest_classifies [of "answers 400 ''usererror''" "Some \<lparr>Votes = [vote0]\<rparr>" codec0 "''POST''"]
  by (simp add: requestIssued_def unreachable_def answers_def codec0_UserErrorReply)

text \<open>
  C8. An HTTP 400 whose body does not unmarshal into a \<open>UserErrorReply\<close> with a nonzero
  error code falls out of the switch: makeRequest returns the raw body and no error, the
  very result a 200 with that body gives.
\<close>

theorem makeRequest_400_unstructured:
  assumes "requestIssued env b"
    and "Do env = Inr r"
    and "StatusCode r = 400"
    and "\<nexists>ue. unmarshalUserErrorReply cd (ResponseBody r) = Some ue \<and> ue_ErrorCode ue \<noteq> 0"
  shows "makeRequest cd env method b = Inr (ResponseBody r) \<and>
         makeRequest cd env method b =
           makeRequest cd (env\<lparr>Do := Inr (r\<lparr>StatusCode := 200\<rparr>)\<rparr>) method b"
  using assms
  by (auto simp: makeRequest_def requestIssued_def split: option.splits)

theorem makeRequest_400_unstructured_witness:
  "makeRequest codec0 (answers 400 ''<html>Bad Request</html>'') ''POST''
     (Some \<lparr>Votes = [vote0]\<rparr>) = Inr ''<html>Bad Request</html>'' \<and>
   makeRequest codec0 (answers 400 ''{}'') ''POST'' (Some \<lparr>Votes = [vote0]\<rparr>) = Inr ''{}''"
  using makeRequest_400_unstructured [of "answers 400 ''<html>Bad Request</html>''"
      "Some \<lparr>Votes = [vote0]\<rparr>" "\<lparr>StatusCode = 400, ResponseBody = ''<html>Bad Request</html>''\<rparr>"
      codec0 "''POST''"]
    makeRequest_400_unstructured [of "answers 400 ''{}''"
      "Some \<lparr>Votes = [vote0]\<rparr>" "\<lparr>StatusCode = 400, ResponseBody = ''{}''\<rparr>"
      codec0 "''POST''"]
  by (simp add: requestIssued_def answers_def codec0_UserErrorReply)

text \<open>
  C10. sendVote refuses a ballot that does not hold exactly one vote and a reply that does
  not hold exactly one receipt, so whatever it returns without an error is the single
  receipt of the reply to a ballot of a single vote.
\<close>

theorem sendVote_one_vote_one_receipt:
  "(length (Votes ballot) \<noteq> 1 \<longrightarrow>
      sendVote cd env ballot = Inl (Errorf ''sendVote: only one vote allowed'')) \<and>
   (\<forall>body vr. length (Votes ballot) = 1 \<and>
      makeRequest cd env ''POST'' (Some ballot) = Inr body \<and>
      unmarshalCastBallotReply cd body = Some vr \<and> length (Receipts vr) \<noteq> 1 \<longrightarrow>
      sendVote cd env ballot = Inl (Errorf ''sendVote: received multiple answers'')) \<and>
   (\<forall>r. sendVote cd env ballot = Inr r \<longrightarrow>
      length (Votes ballot) = 1 \<and>
      (\<exists>body vr. makeRequest cd env ''POST'' (Some ballot) = Inr body \<and>
         unmarshalCastBallotReply cd body = Some vr \<and> Receipts vr = [r]))"
  by (auto simp: sendVote_def split: sum.splits option.splits list.splits if_splits)

theorem sendVote_one_vote_one_receipt_witness:
  "sendVote codec0 (answers 200 ''one'') \<lparr>Votes = [vote0, vote0]\<rparr> =
     Inl (Errorf ''sendVote: only one vote allowed'') \<and>
   sendVote codec0 (answers 200 ''one'') \<lparr>Votes = []\<rparr> =
     Inl (Errorf ''sendVote: only one vote allowed'') \<and>
   sendVote codec0 (answers 200 ''two'') \<lparr>Votes = [vote0]\<rparr> =
     Inl (Errorf ''sendVote: received multiple answers'') \<and>
   sendVote codec0 (answers 200 ''{}'') \<lparr>Votes = [vote0]\<rparr> =
     Inl (Errorf ''sendVote: received multiple answers'') \<and>
   sendVote codec0 (answers 200 ''one'') \<lparr>Votes = [vote0]\<rparr> = Inr receipt0 \<and>
   length (Votes \<lparr>Votes = [vote0]\<rparr>) = 1"
proof -
  have ok: "makeRequest codec0 (answers 200 s) ''POST'' (Some \<lparr>Votes = [vote0]\<rparr>) = Inr s" for s
    by (simp add: makeRequest_def answers_def)
  have one: "sendVote codec0 (answers 200 ''one'') \<lparr>Votes = [vote0]\<rparr> = Inr receipt0"
    by (simp add: sendVote_def ok codec0_CastBallotReply)
  show ?thesis
    using sendVote_one_vote_one_receipt [of "\<lparr>Votes = [vote0, vote0]\<rparr>" codec0 "answers 200 ''one''"]
      sendVote_one_vote_one_receipt [of "\<lparr>Votes = []\<rparr>" codec0 "answers 200 ''one''"]
      sendVote_one_vote_one_receipt [of "\<lparr>Votes = [vote0]\<rparr>" codec0 "answers 200 ''two''"]
      sendVote_one_vote_one_receipt [of "\<lparr>Votes = [vote0]\<rparr>" codec0 "answers 200 ''{}''"]
      sendVote_one_vote_one_receipt [of "\<lparr>Votes = [vote0]\<rparr>" codec0 "answers 200 ''one''"]
      ok one
    by (simp add: codec0_CastBallotReply)
qed

section \<open>Casting in base 16, tallying in base 10\<close>

declare formatBits.simps [simp del] reread.simps [simp del] allDecimal.simps [simp del]


lemma digits_kind:
  assumes "d < 16"
  shows "decimalDigit (digits ! d) = (d < 10)" and "hexLetter (digits ! d) = (10 \<le> d)"
proof -
  from assms have "d = 0 \<or> d = 1 \<or> d = 2 \<or> d = 3 \<or> d = 4 \<or> d = 5 \<or> d = 6 \<or> d = 7 \<or>
      d = 8 \<or> d = 9 \<or> d = 10 \<or> d = 11 \<or> d = 12 \<or> d = 13 \<or> d = 14 \<or> d = 15"
    by arith
  then show "decimalDigit (digits ! d) = (d < 10)" and "hexLetter (digits ! d) = (10 \<le> d)"
    by (elim disjE; simp add: digits_def decimalDigit_def hexLetter_def)+
qed





lemma allDecimal_iff: "allDecimal u \<longleftrightarrow> (\<forall>c \<in> set (formatBits u 16). decimalDigit c)"
proof (induction u rule: reread.induct)
  case (1 u)
  show ?case
  proof (cases "u < 16")
    case True
    then show ?thesis by (simp add: formatBits.simps [of u] allDecimal.simps [of u] digits_kind)
  next
    case False
    with 1 show ?thesis
      by (auto simp add: formatBits.simps [of u] allDecimal.simps [of u] digits_kind)
  qed
qed










section \<open>Properties of jsonLog\<close>

lemma encodeAll_append:
  "h_append h \<Longrightarrow> files fs (h_name h) = Some fl \<Longrightarrow> encodeAll env k vs fs h = (err, fs') \<Longrightarrow>
   \<exists>n \<le> length vs. files fs' = (files fs)(h_name h \<mapsto> fl\<lparr>content := content fl @ map Value (take n vs)\<rparr>) \<and>
     dirs fs' = dirs fs \<and> (err = None \<longrightarrow> n = length vs)"
proof (induction vs arbitrary: k fs fl)
  case Nil
  then show ?case by (auto simp: fun_upd_idem)
next
  case (Cons v vs)
  show ?case
  proof (cases "EncodeErrAt env k")
    case (Some e)
    with Cons.prems have "fs' = fs" "err = Some (Errorf e)" by simp_all
    with Cons.prems(2) show ?thesis
      by (intro exI [of _ 0]) (auto simp: fun_upd_idem)
  next
    case None
    let ?fl1 = "fl\<lparr>content := content fl @ [Value v]\<rparr>"
    let ?fs1 = "fs\<lparr>files := (files fs)(h_name h \<mapsto> ?fl1)\<rparr>"
    from None Cons.prems have e: "encodeAll env (Suc k) vs ?fs1 h = (err, fs')"
      by (simp add: writeValue_def)
    have f1: "files ?fs1 (h_name h) = Some ?fl1" by simp
    from Cons.IH [OF Cons.prems(1) f1 e]
    obtain n where n: "n \<le> length vs"
      "files fs' = (files ?fs1)(h_name h \<mapsto> ?fl1\<lparr>content := content ?fl1 @ map Value (take n vs)\<rparr>)"
      "dirs fs' = dirs ?fs1" "err = None \<longrightarrow> n = length vs"
      by blast
    then show ?thesis
      by (intro exI [of _ "Suc n"]) auto
  qed
qed


lemma OpenFile_journal:
  assumes "OpenFile oe fs name {O_WRONLY, O_CREATE, O_APPEND} p = Inr (fs2, fh)"
  shows "h_name fh = name \<and> h_append fh \<and> dirs fs2 = dirs fs \<and> dirs fs (butlast name) \<noteq> None \<and>
         files fs2 = (files fs)(name \<mapsto> (case files fs name of None \<Rightarrow> \<lparr>perm = p, content = []\<rparr> | Some f \<Rightarrow> f))"
  using assms
  by (auto simp: OpenFile_def fun_upd_idem split: option.splits if_splits)

lemma MkdirAll_files: "files (MkdirAll b fs dir p) = files fs"
  by (simp add: MkdirAll_def)

lemma jsonLog_effect:
  assumes "jsonLog env voteDir run fs filename token work = (err, fs')"
  shows "(\<forall>p fl. files fs p = Some fl \<longrightarrow>
            (\<exists>fl'. files fs' p = Some fl' \<and> prefix (content fl) (content fl') \<and> perm fl' = perm fl)) \<and>
         (\<forall>p. p \<noteq> voteDir @ [token, filename @ ''.'' @ FormatInt run] \<longrightarrow> files fs' p = files fs p) \<and>
         (err = None \<longrightarrow>
            (\<exists>fl'. files fs' (voteDir @ [token, filename @ ''.'' @ FormatInt run]) = Some fl' \<and>
               content fl' =
                 (case files fs (voteDir @ [token, filename @ ''.'' @ FormatInt run]) of
                    None \<Rightarrow> [] | Some fl \<Rightarrow> content fl) @
                 Value (JTime \<lparr>Time = Now env\<rparr>) # map Value work \<and>
               perm fl' =
                 (case files fs (voteDir @ [token, filename @ ''.'' @ FormatInt run]) of
                    None \<Rightarrow> mode_0600 | Some fl \<Rightarrow> perm fl)) \<and>
            dirs fs' (voteDir @ [token]) =
              Some (case dirs fs (voteDir @ [token]) of None \<Rightarrow> mode_0700 | Some m \<Rightarrow> m))"
proof -
  let ?dir = "voteDir @ [token]"
  let ?f = "voteDir @ [token, filename @ ''.'' @ FormatInt run]"
  let ?fs1 = "MkdirAll (MkdirAllFails env) fs ?dir mode_0700"
  let ?vs = "JTime \<lparr>Time = Now env\<rparr> # work"
  show ?thesis
  proof (cases "OpenFile (OpenFileErr env) ?fs1 ?f {O_WRONLY, O_CREATE, O_APPEND} mode_0600")
    case (Inl e)
    with assms have "fs' = ?fs1" "err = Some e"
      by (simp_all add: jsonLog_def Join_def journalName_def)
    then show ?thesis by (simp add: MkdirAll_files)
  next
    case (Inr r)
    obtain fs2 fh where r: "r = (fs2, fh)" by (cases r)
    from Inr r have o: "OpenFile (OpenFileErr env) ?fs1 ?f {O_WRONLY, O_CREATE, O_APPEND} mode_0600 = Inr (fs2, fh)"
      by simp
    note O = OpenFile_journal [OF o]
    let ?fl0 = "case files fs ?f of None \<Rightarrow> \<lparr>perm = mode_0600, content = []\<rparr> | Some f \<Rightarrow> f"
    from O have f2: "files fs2 (h_name fh) = Some ?fl0" by (simp add: MkdirAll_files)
    from assms o have e: "encodeAll env 0 ?vs fs2 fh = (err, fs')"
      by (simp add: jsonLog_def Join_def journalName_def)
    from O have app: "h_append fh" by simp
    from encodeAll_append [OF app f2 e]
    obtain n where n: "n \<le> length ?vs"
      "files fs' = (files fs2)(h_name fh \<mapsto> ?fl0\<lparr>content := content ?fl0 @ map Value (take n ?vs)\<rparr>)"
      "dirs fs' = dirs fs2" "err = None \<longrightarrow> n = length ?vs"
      by blast
    have files': "files fs' = (files fs)(?f \<mapsto> ?fl0\<lparr>content := content ?fl0 @ map Value (take n ?vs)\<rparr>)"
      using n(2) O by (simp add: MkdirAll_files)
    have dirs': "dirs fs' = dirs ?fs1" using n(3) O by simp
    have bl: "butlast ?f = ?dir" by (simp add: butlast_append)
    have d: "dirs ?fs1 ?dir \<noteq> None" using O unfolding bl by blast
    have 1: "\<forall>p fl. files fs p = Some fl \<longrightarrow>
            (\<exists>fl'. files fs' p = Some fl' \<and> prefix (content fl) (content fl') \<and> perm fl' = perm fl)"
      by (auto simp: files')
    have 2: "\<forall>p. p \<noteq> ?f \<longrightarrow> files fs' p = files fs p"
      by (simp add: files')
    have 3: "dirs fs' ?dir = Some (case dirs fs ?dir of None \<Rightarrow> mode_0700 | Some m \<Rightarrow> m)"
      using d by (auto simp: dirs' MkdirAll_def split: option.splits if_splits)
    have 4: "err = None \<longrightarrow> (\<exists>fl'. files fs' ?f = Some fl' \<and>
               content fl' = (case files fs ?f of None \<Rightarrow> [] | Some fl \<Rightarrow> content fl) @
                 Value (JTime \<lparr>Time = Now env\<rparr>) # map Value work \<and>
               perm fl' = (case files fs ?f of None \<Rightarrow> mode_0600 | Some fl \<Rightarrow> perm fl))"
      using n(4) by (auto simp: files' split: option.splits)
    from 1 2 3 4 show ?thesis by blast
  qed
qed


lemma encodeAll_ok: "\<forall>k. EncodeErrAt env k = None \<Longrightarrow> fst (encodeAll env k vs fs h) = None"
  by (induction vs arbitrary: k fs h) (auto split: prod.splits)

lemma jsonLog_succeeds:
  assumes "\<not> MkdirAllFails env" and "OpenFileErr env = None" and "\<forall>k. EncodeErrAt env k = None"
    and "list_all (\<lambda>q. files fs q = None) (prefixes (voteDir @ [token]))"
    and "dirs fs (voteDir @ [token, filename @ ''.'' @ FormatInt run]) = None"
  shows "fst (jsonLog env voteDir run fs filename token work) = None"
proof -
  let ?dir = "voteDir @ [token]"
  let ?f = "voteDir @ [token, filename @ ''.'' @ FormatInt run]"
  let ?fs1 = "MkdirAll (MkdirAllFails env) fs ?dir mode_0700"
  have bl: "butlast ?f = ?dir" by (simp add: butlast_append)
  have d: "dirs ?fs1 ?dir \<noteq> None"
    using assms(1,4) by (simp add: MkdirAll_def)
  have "\<not> prefix ?f ?dir" by (auto simp: prefix_def)
  then have nd: "dirs ?fs1 ?f = None"
    using assms(1,5) by (simp add: MkdirAll_def)
  have "\<exists>fs2 fh. OpenFile (OpenFileErr env) ?fs1 ?f {O_WRONLY, O_CREATE, O_APPEND} mode_0600 = Inr (fs2, fh)"
    using d nd assms(2) by (simp add: OpenFile_def butlast_append split: option.splits)
  then obtain fs2 fh where "OpenFile (OpenFileErr env) ?fs1 ?f {O_WRONLY, O_CREATE, O_APPEND} mode_0600 = Inr (fs2, fh)"
    by blast
  then show ?thesis
    using encodeAll_ok [OF assms(3)]
    by (simp add: jsonLog_def Join_def journalName_def del: encodeAll.simps)
qed

lemma FormatInt_ex: "FormatInt 1600000000 = ''1600000000''"
  by (simp add: FormatInt_def formatBits.simps digits_def)

lemma jsonLog_ex:
  "fst (jsonLog log_env0 [''votes''] 1600000000 fs0 failedJournal ''aa'' [JReply receipt0]) = None"
  "files (snd (jsonLog log_env0 [''votes''] 1600000000 fs0 failedJournal ''aa'' [JReply receipt0]))
     [''votes'', ''aa'', ''failed.json.1600000000''] =
   Some \<lparr>perm = mode_0600,
         content = [Value (JTime \<lparr>Time = ''Jan  2 15:04:05.000000000''\<rparr>), Value (JReply receipt0)]\<rparr>"
  "files (snd (jsonLog log_env0 [''votes''] 1600000000 fs0 failedJournal ''aa'' [JReply receipt0]))
     [''votes'', ''aa'', ''failed.1600000000''] = None"
  "dirs (snd (jsonLog log_env0 [''votes''] 1600000000 fs0 failedJournal ''aa'' [JReply receipt0]))
     [''votes'', ''aa''] = Some mode_0700"
  by (simp_all add: jsonLog_def Let_def Join_def journalName_def FormatInt_ex failedJournal_def
      MkdirAll_def OpenFile_def writeValue_def log_env0_def fs0_def butlast_append)


text \<open>
  C5 (as the code has it). Every append of jsonLog goes to the file
  \<open>voteDir/token/filename.ts\<close>, \<open>ts\<close> the Unix time of the start of the run in decimal,
  and the journal names are \<open>failed.json\<close>, \<open>success.json\<close> and \<open>work.json\<close>, so the
  files are \<open>failed.json.ts\<close>, \<open>success.json.ts\<close> and \<open>work.json.ts\<close>. A directory
  it creates has mode 0700 and a file it creates mode 0600; the file is opened
  \<open>O_WRONLY|O_CREATE|O_APPEND\<close>; an append that returns no error has added the time marker
  and then the payload records at the end; whatever it returns, every file that existed
  keeps its mode and its contents as a prefix, and no other file changes. When nothing
  outside fails, no file stands where the directory goes and no directory where the file
  goes, the append returns no error.
\<close>

theorem jsonLog_appends:
  assumes "jsonLog env voteDir run fs filename token work = (err, fs')"
  shows "failedJournal = ''failed.json'' \<and> successJournal = ''success.json'' \<and>
         workJournal = ''work.json'' \<and>
         Join (Join voteDir token) (journalName filename run) =
           voteDir @ [token, filename @ ''.'' @ FormatInt run] \<and>
         (\<forall>p fl. files fs p = Some fl \<longrightarrow>
            (\<exists>fl'. files fs' p = Some fl' \<and> prefix (content fl) (content fl') \<and> perm fl' = perm fl)) \<and>
         (\<forall>p. p \<noteq> voteDir @ [token, filename @ ''.'' @ FormatInt run] \<longrightarrow> files fs' p = files fs p) \<and>
         (err = None \<longrightarrow>
            (\<exists>fl'. files fs' (voteDir @ [token, filename @ ''.'' @ FormatInt run]) = Some fl' \<and>
               content fl' =
                 (case files fs (voteDir @ [token, filename @ ''.'' @ FormatInt run]) of
                    None \<Rightarrow> [] | Some fl \<Rightarrow> content fl) @
                 Value (JTime \<lparr>Time = Now env\<rparr>) # map Value work \<and>
               perm fl' =
                 (case files fs (voteDir @ [token, filename @ ''.'' @ FormatInt run]) of
                    None \<Rightarrow> mode_0600 | Some fl \<Rightarrow> perm fl)) \<and>
            dirs fs' (voteDir @ [token]) =
              Some (case dirs fs (voteDir @ [token]) of None \<Rightarrow> mode_0700 | Some m \<Rightarrow> m)) \<and>
         (\<not> MkdirAllFails env \<and> OpenFileErr env = None \<and> (\<forall>k. EncodeErrAt env k = None) \<and>
          list_all (\<lambda>q. files fs q = None) (prefixes (voteDir @ [token])) \<and>
          dirs fs (voteDir @ [token, filename @ ''.'' @ FormatInt run]) = None \<longrightarrow> err = None)"
proof -
  have "\<not> MkdirAllFails env \<and> OpenFileErr env = None \<and> (\<forall>k. EncodeErrAt env k = None) \<and>
          list_all (\<lambda>q. files fs q = None) (prefixes (voteDir @ [token])) \<and>
          dirs fs (voteDir @ [token, filename @ ''.'' @ FormatInt run]) = None \<longrightarrow> err = None"
    using jsonLog_succeeds [of env fs voteDir token filename run work] assms by auto
  moreover have "Join (Join voteDir token) (journalName filename run) =
           voteDir @ [token, filename @ ''.'' @ FormatInt run]"
    by (simp add: Join_def journalName_def)
  ultimately show ?thesis
    using jsonLog_effect [OF assms]
    by (simp add: failedJournal_def successJournal_def workJournal_def)
qed

theorem jsonLog_appends_witness:
  "(\<exists>fl'. files (snd (jsonLog log_env0 [''votes''] 1600000000 fs0 failedJournal ''aa'' [JReply receipt0]))
       ([''votes''] @ [''aa'', failedJournal @ ''.'' @ FormatInt 1600000000]) = Some fl' \<and>
     content fl' = [Value (JTime \<lparr>Time = Now log_env0\<rparr>), Value (JReply receipt0)] \<and>
     perm fl' = mode_0600) \<and>
   dirs (snd (jsonLog log_env0 [''votes''] 1600000000 fs0 failedJournal ''aa'' [JReply receipt0]))
     [''votes'', ''aa''] = Some mode_0700 \<and>
   fst (jsonLog log_env0 [''votes''] 1600000000 fs0 failedJournal ''aa'' [JReply receipt0]) = None"
proof -
  have e: "jsonLog log_env0 [''votes''] 1600000000 fs0 failedJournal ''aa'' [JReply receipt0] =
      (fst (jsonLog log_env0 [''votes''] 1600000000 fs0 failedJournal ''aa'' [JReply receipt0]),
       snd (jsonLog log_env0 [''votes''] 1600000000 fs0 failedJournal ''aa'' [JReply receipt0]))"
    by simp
  have f: "files fs0 p = None" "dirs fs0 [''votes'', ''aa''] = None" for p
    by (simp_all add: fs0_def)
  show ?thesis
    using jsonLog_appends [OF e] jsonLog_ex(1)
    by (simp add: f)
qed

text \<open>
  The file names of the claim as it was stated, \<open>failed.ts\<close> and its siblings, are not
  those of the code: after an append to the failed journal of a run started at
  1600000000 there is no file \<open>failed.1600000000\<close>; the records are in
  \<open>failed.json.1600000000\<close>.
\<close>

theorem jsonLog_name_counterexample:
  "files (snd (jsonLog log_env0 [''votes''] 1600000000 fs0 failedJournal ''aa'' [JReply receipt0]))
     [''votes'', ''aa'', ''failed.1600000000''] = None \<and>
   files (snd (jsonLog log_env0 [''votes''] 1600000000 fs0 failedJournal ''aa'' [JReply receipt0]))
     [''votes'', ''aa'', ''failed.json.1600000000''] =
   Some \<lparr>perm = mode_0600,
         content = [Value (JTime \<lparr>Time = ''Jan  2 15:04:05.000000000''\<rparr>), Value (JReply receipt0)]\<rparr>"
  using jsonLog_ex(2,3) by simp

section \<open>Properties of the main loop\<close>

declare mainLoop.simps [simp del]

lemma mainLoop_pop:
  "voteIntervalQ c = vi # rest \<Longrightarrow>
   mainLoop cd invalid env token i c =
     (case iteration cd invalid env token i vi (c\<lparr>voteIntervalQ := rest\<rparr>) of
        (Next, c2) \<Rightarrow> mainLoop cd invalid env token (i + 1) c2
      | (Return r, c2) \<Rightarrow> (r, c2))"
  by (subst mainLoop.simps) (simp add: voteIntervalPop_def)

lemma mainLoop_empty:
  "voteIntervalQ c = [] \<Longrightarrow>
   mainLoop cd invalid env token i c = (None, c\<lparr>signals := signals c @ [mainLoopDone]\<rparr>)"
  by (subst mainLoop.simps) (simp add: voteIntervalPop_def)


text \<open>
  C1, as the code behaves. When the cancellation of \<open>c.wctx\<close> fires during the wait of
  a turn (any turn but the first, which does not wait), the main loop goes to \<open>exit\<close>
  with the popped vote in neither queue: the interval queue is the rest, and the summary
  counts one vote less than were not cast. When \<open>retryLoopForceExit\<close> fires there, the
  vote is pushed (at the back) and counted.
\<close>

theorem cancel_loses_popped_vote:
  assumes "voteIntervalQ c = vi # rest" and "0 < i"
  shows "(Select env i = wctx_Done \<longrightarrow>
            mainLoop cd invalid env token i c = (None, c\<lparr>voteIntervalQ := rest\<rparr>) \<and>
            votesNotCast (vote_summary (c\<lparr>voteIntervalQ := rest\<rparr>)) = length rest + length (retryQ c)) \<and>
         (Select env i = retryLoopForceExit \<longrightarrow>
            mainLoop cd invalid env token i c = (None, c\<lparr>voteIntervalQ := rest @ [vi]\<rparr>) \<and>
            votesNotCast (vote_summary (c\<lparr>voteIntervalQ := rest @ [vi]\<rparr>)) =
              Suc (length rest) + length (retryQ c))"
  using assms
  by (simp add: mainLoop_pop iteration_def voteIntervalPush_def vote_summary_def
      voteIntervalLen_def retryLen_def Let_def)


lemma iteration_success:
  assumes "i = 0 \<or> Select env i = time_After"
    and "sendVote cd (Http env i) \<lparr>Votes = [vi_Vote vi]\<rparr> = Inr vr"
    and "cvr_ErrorCode vr \<noteq> invalid"
    and "fst (jsonLog (Log env i) (cfg_voteDir c) (run_Unix c) (disk c) successJournal token [JReply vr]) = None"
  shows "iteration cd invalid env token i vi c =
     (Next, c\<lparr>submitted := submitted c @ [\<lparr>Votes = [vi_Vote vi]\<rparr>],
              ballotResults := ballotResults c @ [vr],
              disk := snd (jsonLog (Log env i) (cfg_voteDir c) (run_Unix c) (disk c) successJournal token [JReply vr])\<rparr>)"
proof -
  let ?j = "jsonLog (Log env i) (cfg_voteDir c) (run_Unix c) (disk c) successJournal token [JReply vr]"
  let ?c2 = "c\<lparr>submitted := submitted c @ [\<lparr>Votes = [vi_Vote vi]\<rparr>],
                ballotResults := ballotResults c @ [vr]\<rparr>"
  have s: "(if i = 0 then time_After else Select env i) = time_After"
    using assms(1) by auto
  have j: "ctx_jsonLog (Log env i) ?c2 successJournal token [JReply vr] = (None, ?c2\<lparr>disk := snd ?j\<rparr>)"
    using assms(4) by (cases ?j) (simp add: ctx_jsonLog_def)
  show ?thesis
    unfolding iteration_def s using assms(2,3) j by (simp add: Let_def)
qed

lemma sendVote_one: "sendVote codec0 (answers 200 ''one'') \<lparr>Votes = [v]\<rparr> = Inr receipt0"
  by (simp add: sendVote_def makeRequest_def answers_def codec0_CastBallotReply)


lemma first_log:
  "fst (jsonLog log_env0 [''votes''] 1600000000 fs0 successJournal ''aa'' [JReply receipt0]) = None"
  by (rule jsonLog_succeeds) (simp_all add: log_env0_def fs0_def prefixes_snoc)

lemma receipt0_code: "cvr_ErrorCode receipt0 \<noteq> statusInvalid"
  by (simp add: receipt0_def statusInvalid_def)

lemma first_vote:
  assumes "Select env 0 = s" "Http env 0 = answers 200 ''one''" "Log env 0 = log_env0"
  shows "mainLoop codec0 statusInvalid env ''aa'' 0 (ctx0\<lparr>ballotResults := []\<rparr>) =
         mainLoop codec0 statusInvalid env ''aa'' (Suc 0) ctx1"
proof -
  have "iteration codec0 statusInvalid env ''aa'' 0 vi1 (ctx0\<lparr>ballotResults := [], voteIntervalQ := [vi2, vi3]\<rparr>) =
      (Next, ctx1)"
    by (subst iteration_success [where vr = receipt0])
      (simp_all add: assms sendVote_one first_log ctx0_def ctx1_def receipt0_code)
  then show ?thesis
    by (subst mainLoop_pop [where vi = vi1 and rest = "[vi2, vi3]"]) (simp_all add: ctx0_def)
qed


lemma ctx1_fields:
  "voteIntervalQ ctx1 = [vi2, vi3]" "retryQ ctx1 = []" "ballotResults ctx1 = [receipt0]"
  "signals ctx1 = []" "submitted ctx1 = [\<lparr>Votes = [vi_Vote vi1]\<rparr>]"
  "cfg_voteDir ctx1 = [''votes'']" "run_Unix ctx1 = 1600000000"
  by (simp_all add: ctx1_def ctx0_def)

theorem cancel_loses_popped_vote_witness:
  "fst (vote codec0 statusInvalid env_cancel ''aa'' ctx0) =
     Inr \<lparr>votesSucceeded = 1, votesFailed = 0, votesNotCast = 1\<rparr> \<and>
   voteIntervalQ (snd (vote codec0 statusInvalid env_cancel ''aa'' ctx0)) = [vi3] \<and>
   submitted (snd (vote codec0 statusInvalid env_cancel ''aa'' ctx0)) = [\<lparr>Votes = [vi_Vote vi1]\<rparr>] \<and>
   fst (vote codec0 statusInvalid env_force ''aa'' ctx0) =
     Inr \<lparr>votesSucceeded = 1, votesFailed = 0, votesNotCast = 2\<rparr> \<and>
   voteIntervalQ (snd (vote codec0 statusInvalid env_force ''aa'' ctx0)) = [vi3, vi2]"
proof -
  have a: "mainLoop codec0 statusInvalid env_cancel ''aa'' 0 (ctx0\<lparr>ballotResults := []\<rparr>) =
      mainLoop codec0 statusInvalid env_cancel ''aa'' (Suc 0) ctx1"
    by (rule first_vote [where s = wctx_Done]) (simp_all add: env_cancel_def)
  have b: "mainLoop codec0 statusInvalid env_force ''aa'' 0 (ctx0\<lparr>ballotResults := []\<rparr>) =
      mainLoop codec0 statusInvalid env_force ''aa'' (Suc 0) ctx1"
    by (rule first_vote [where s = retryLoopForceExit]) (simp_all add: env_force_def)
  have q: "voteIntervalQ ctx1 = vi2 # [vi3]" by (simp add: ctx1_fields)
  have sc: "Select env_cancel (Suc 0) = wctx_Done" and sf: "Select env_force (Suc 0) = retryLoopForceExit"
    by (simp_all add: env_cancel_def env_force_def)
  have e: "cvr_ErrorContext receipt0 = []" by (simp add: receipt0_def)
  have c: "mainLoop codec0 statusInvalid env_cancel ''aa'' (Suc 0) ctx1 = (None, ctx1\<lparr>voteIntervalQ := [vi3]\<rparr>)"
    using cancel_loses_popped_vote [OF q, of "Suc 0" env_cancel codec0 statusInvalid "''aa''"] sc
    by simp
  have f: "mainLoop codec0 statusInvalid env_force ''aa'' (Suc 0) ctx1 = (None, ctx1\<lparr>voteIntervalQ := [vi3, vi2]\<rparr>)"
    using cancel_loses_popped_vote [OF q, of "Suc 0" env_force codec0 statusInvalid "''aa''"] sf
    by simp
  show ?thesis
    by (simp add: vote_def voteTrickler_def a b c f vote_summary_def Let_def
        voteIntervalLen_def retryLen_def ctx1_fields e)
qed






section \<open>Properties of eligibleVotes\<close>

lemma castVotes_dom_aux:
  "dom (foldl (\<lambda>m v. m(cvd_Ticket v \<mapsto> v)) m0 votes) = dom m0 \<union> cvd_Ticket ` set votes"
  by (induction votes arbitrary: m0) auto

lemma castVotes_dom: "dom (castVotes votes) = cvd_Ticket ` set votes"
  by (simp add: castVotes_def castVotes_dom_aux)

lemma eligibleLoop_step:
  assumes "eligibleLoop w cast eligible (a # ts) = Inr el"
  shows "(\<not> (canSign w a \<and> cast (hashString (ta_Ticket a)) = None) \<and>
            eligibleLoop w cast eligible ts = Inr el) \<or>
         (canSign w a \<and> cast (hashString (ta_Ticket a)) = None \<and>
            eligibleLoop w cast (eligible @ [a]) ts = Inr el)"
proof (cases "NewHash (ta_Ticket a)")
  case (Inl e)
  with assms show ?thesis by simp
next
  case (Inr h)
  then have h: "h = ta_Ticket a" by (simp add: NewHash_def split: if_splits)
  show ?thesis
  proof (cases "walletAccount w (ta_Ticket a)")
    case None
    with assms Inr h show ?thesis
      by (simp add: canSign_def walletAccount_def split: option.splits if_splits)
  next
    case (Some n)
    with assms Inr h show ?thesis
      by (simp add: canSign_def walletAccount_def split: option.splits if_splits)
  qed
qed

lemma eligibleLoop_filter:
  "eligibleLoop w cast eligible ts = Inr el \<Longrightarrow>
   el = eligible @ filter (\<lambda>t. canSign w t \<and> cast (hashString (ta_Ticket t)) = None) ts"
proof (induction ts arbitrary: eligible)
  case Nil
  then show ?case by simp
next
  case (Cons a ts)
  from eligibleLoop_step [OF Cons.prems] show ?case
  proof
    assume "\<not> (canSign w a \<and> cast (hashString (ta_Ticket a)) = None) \<and>
            eligibleLoop w cast eligible ts = Inr el"
    then show ?thesis using Cons.IH [of eligible] by simp
  next
    assume "canSign w a \<and> cast (hashString (ta_Ticket a)) = None \<and>
            eligibleLoop w cast (eligible @ [a]) ts = Inr el"
    then show ?thesis using Cons.IH [of "eligible @ [a]"] by simp
  qed
qed

text \<open>
  C3, as the code behaves. The tickets eligibleVotes returns are exactly the committed
  tickets the wallet can sign for whose hash is not a ticket of the cast votes: the
  signature of a cast vote is never looked at, so a ticket that voted with an invalid
  signature is left out like any other ticket that voted.
\<close>

theorem eligibleVotes_ignores_signatures:
  assumes "eligibleVotes w rrVotes ticketAddresses = Inr el"
  shows "el = filter (\<lambda>t. canSign w t \<and> hashString (ta_Ticket t) \<notin> cvd_Ticket ` set rrVotes)
                ticketAddresses"
proof -
  have "(castVotes rrVotes k = None) = (k \<notin> cvd_Ticket ` set rrVotes)" for k
    using castVotes_dom [of rrVotes] domIff [of k "castVotes rrVotes"] by simp
  then show ?thesis
    using eligibleLoop_filter [of w "castVotes rrVotes" "[]" ticketAddresses el] assms
    by (simp add: eligibleVotes_def)
qed

lemma eligible_ex:
  "eligibleVotes wallet0 [badVote] [ticket0] = Inr []"
  "eligibleVotes wallet0 [] [ticket0] = Inr [ticket0]"
  by (simp_all add: eligibleVotes_def castVotes_def NewHash_def wallet0_def ticket0_def badVote_def)


theorem eligibleVotes_ignores_signatures_witness:
  "eligibleVotes wallet0 [badVote] [ticket0] = Inr [] \<and> canSign wallet0 ticket0 \<and>
   cvd_Ticket badVote = hashString (ta_Ticket ticket0) \<and>
   cvd_Signature badVote = ''not a signature'' \<and>
   eligibleVotes wallet0 [] [ticket0] = Inr [ticket0]"
proof -
  have "canSign wallet0 ticket0"
    by (simp add: canSign_def walletAccount_def wallet0_def)
  then show ?thesis
    using eligibleVotes_ignores_signatures [OF eligible_ex(1)] eligible_ex
    by (simp add: badVote_def)
qed

section \<open>Properties of the journal decoders\<close>








































section \<open>Properties of verifyVote\<close>





























end
